theory Spec2Isabelle
  imports Complex_Main
begin

section \<open>Tuning constants of the game canvas\<close>

text \<open>
  The constants at the head of the canvas component.  JavaScript numbers are
  modelled as real numbers: every arithmetic operation is the exact one, IEEE
  rounding is not part of the model.
\<close>

definition GRAVITY :: real where "GRAVITY = 1500"
definition THRUST_ACCEL :: real where "THRUST_ACCEL = - 2600"
definition UFO_RADIUS :: real where "UFO_RADIUS = 22"

definition OBSTACLE_WIDTH :: real where "OBSTACLE_WIDTH = 80"
definition OBSTACLE_BASE_GAP :: real where "OBSTACLE_BASE_GAP = 220"
definition OBSTACLE_MIN_GAP :: real where "OBSTACLE_MIN_GAP = 140"
definition OBSTACLE_SPACING :: real where "OBSTACLE_SPACING = 260"

definition BASE_SPEED :: real where "BASE_SPEED = 190"
definition MAX_SPEED :: real where "MAX_SPEED = 370"
definition MAX_FPS :: real where "MAX_FPS = 1000 / 240"

definition DIFFICULTY_MAX_DISTANCE :: real where "DIFFICULTY_MAX_DISTANCE = 4500"

definition COUNTDOWN_DURATION :: real where "COUNTDOWN_DURATION = 3"

lemmas tuning_defs =
  GRAVITY_def THRUST_ACCEL_def UFO_RADIUS_def OBSTACLE_WIDTH_def
  OBSTACLE_BASE_GAP_def OBSTACLE_MIN_GAP_def OBSTACLE_SPACING_def
  BASE_SPEED_def MAX_SPEED_def MAX_FPS_def DIFFICULTY_MAX_DISTANCE_def
  COUNTDOWN_DURATION_def

section \<open>Difficulty model\<close>

text \<open>
  \<^verbatim>\<open>getDifficultyFactor\<close>: the scaling factor in [0,1], with the two early returns
  of the source in their order.
\<close>

definition getDifficultyFactor :: "real \<Rightarrow> real" where
  "getDifficultyFactor d =
     (if d \<le> 0 then 0
      else if d \<ge> DIFFICULTY_MAX_DISTANCE then 1
      else d / DIFFICULTY_MAX_DISTANCE)"

record Params =
  speed :: real
  gap :: real

text \<open>\<^verbatim>\<open>getCurrentParams\<close>: speed and gap from the eased factor.\<close>

definition getCurrentParams :: "real \<Rightarrow> Params" where
  "getCurrentParams d =
     (let t = getDifficultyFactor d;
          ease = t * t
      in \<lparr> speed = BASE_SPEED + (MAX_SPEED - BASE_SPEED) * ease,
           gap = OBSTACLE_BASE_GAP + (OBSTACLE_MIN_GAP - OBSTACLE_BASE_GAP) * ease \<rparr>)"

section \<open>Obstacles and their pipeline\<close>

text \<open>
  The \<^verbatim>\<open>Obstacle\<close> interface.  Its fields carry the prefix \<open>o_\<close> (\<open>id\<close> and \<open>x\<close> would
  hide names used everywhere else).  Identifiers are natural numbers.
\<close>

record Obstacle =
  o_id :: nat
  o_x :: real
  o_gapY :: real
  o_gapHeight :: real
  o_width :: real
  o_passed :: bool

text \<open>
  \<^verbatim>\<open>spawnObstacle(minX, gapHeight)\<close>.  The component's \<^verbatim>\<open>height\<close> is the argument \<open>h\<close>.
  The two mutable cells the function touches are threaded as a pair: the value of
  \<^verbatim>\<open>obstacleIdRef.current\<close> and the number of \<^verbatim>\<open>Math.random()\<close> calls made so far by
  the spawner.  \<open>rnd k\<close> is the value the \<open>k\<close>-th such call returns; JavaScript
  evaluates the call only in the positive branch of the conditional, and so does the
  model.
\<close>

definition spawnObstacle ::
  "(nat \<Rightarrow> real) \<Rightarrow> real \<Rightarrow> nat \<times> nat \<Rightarrow> real \<Rightarrow> real \<Rightarrow> Obstacle \<times> (nat \<times> nat)" where
  "spawnObstacle rnd h refs minX gapH =
     (let centerMargin = 80;
          usableHeight = h - 2 * centerMargin - gapH;
          center = centerMargin + (if usableHeight > 0 then rnd (snd refs) * usableHeight else 0)
      in (\<lparr> o_id = fst refs,
             o_x = minX,
             o_gapY = center + gapH / 2,
             o_gapHeight = gapH,
             o_width = OBSTACLE_WIDTH,
             o_passed = False \<rparr>,
          (fst refs + 1, if usableHeight > 0 then snd refs + 1 else snd refs)))"

text \<open>
  The position of the next spawn, \<^verbatim>\<open>maxX\<close> in the source: 480 on an empty list, else
  \<^verbatim>\<open>Math.max(...active.map(o => o.x)) + OBSTACLE_SPACING\<close>.  The maximum is only taken
  of a non-empty list, where it is the fold of \<open>max\<close> over the list.
\<close>

definition nextSpawnX :: "Obstacle list \<Rightarrow> real" where
  "nextSpawnX active =
     (case active of
        [] \<Rightarrow> 480
      | a # rest \<Rightarrow> fold max (map o_x rest) (o_x a) + OBSTACLE_SPACING)"

text \<open>
  The \<^verbatim>\<open>while (active.length < needed)\<close> loop of the frame function (it stands twice in
  the source, once in the countdown branch and once in the play branch, with the same
  body).
\<close>

function pipelineLoop ::
  "(nat \<Rightarrow> real) \<Rightarrow> real \<Rightarrow> real \<Rightarrow> nat \<Rightarrow> Obstacle list \<Rightarrow> nat \<times> nat
     \<Rightarrow> Obstacle list \<times> (nat \<times> nat)" where
  "pipelineLoop rnd h gapH needed active refs =
     (if length active < needed then
        (let maxX = nextSpawnX active;
             sp = spawnObstacle rnd h refs maxX gapH
         in pipelineLoop rnd h gapH needed (active @ [fst sp]) (snd sp))
      else (active, refs))"
  by pat_completeness auto
termination
  by (relation "measure (\<lambda>(rnd, h, gapH, needed, active, refs). needed - length active)") auto

declare pipelineLoop.simps [simp del]

text \<open>
  The refill step: the filter on the left cull boundary followed by the loop, with
  \<^verbatim>\<open>needed = Math.ceil(960 / OBSTACLE_SPACING) + 3\<close>.
\<close>

definition needed :: nat where
  "needed = nat \<lceil>960 / OBSTACLE_SPACING\<rceil> + 3"

definition refill ::
  "(nat \<Rightarrow> real) \<Rightarrow> real \<Rightarrow> real \<Rightarrow> Obstacle list \<Rightarrow> nat \<times> nat
     \<Rightarrow> Obstacle list \<times> (nat \<times> nat)" where
  "refill rnd h gapH updatedObstacles refs =
     pipelineLoop rnd h gapH needed
       (filter (\<lambda>ob. o_x ob + o_width ob > - 60) updatedObstacles) refs"

text \<open>
  The score update, \<^verbatim>\<open>updatedObstacles.forEach(...)\<close>: it walks the list in order, sets
  \<^verbatim>\<open>passed\<close> on the obstacles behind the scoring line and counts them.
\<close>

fun scoreUpdate :: "Obstacle list \<Rightarrow> int \<Rightarrow> Obstacle list \<times> int" where
  "scoreUpdate [] newScore = ([], newScore)"
| "scoreUpdate (ob # rest) newScore =
     (if \<not> o_passed ob \<and> o_x ob + o_width ob < 960 / 2 - 30
      then (let r = scoreUpdate rest (newScore + 1)
            in (ob\<lparr>o_passed := True\<rparr> # fst r, snd r))
      else (let r = scoreUpdate rest newScore
            in (ob # fst r, snd r)))"

section \<open>Collision detection\<close>

record Rect =
  r_x :: real
  r_y :: real
  r_w :: real
  r_h :: real

text \<open>The two rectangles of an obstacle, as the collision loop builds them.\<close>

definition rects :: "real \<Rightarrow> Obstacle \<Rightarrow> Rect list" where
  "rects h ob =
     (let topHeight = o_gapY ob - o_gapHeight ob / 2;
          bottomY = o_gapY ob + o_gapHeight ob / 2
      in [\<lparr> r_x = o_x ob, r_y = 0, r_w = o_width ob, r_h = topHeight \<rparr>,
          \<lparr> r_x = o_x ob, r_y = bottomY, r_w = o_width ob, r_h = h - bottomY \<rparr>])"

text \<open>The circle-against-rectangle test of the inner loop.\<close>

definition hitsRect :: "real \<Rightarrow> real \<Rightarrow> Rect \<Rightarrow> bool" where
  "hitsRect ufoX nextY r =
     (let closestX = max (r_x r) (min ufoX (r_x r + r_w r));
          closestY = max (r_y r) (min nextY (r_y r + r_h r));
          dx = ufoX - closestX;
          dy = nextY - closestY
      in dx * dx + dy * dy < UFO_RADIUS * UFO_RADIUS)"

text \<open>
  The nested loops with their \<^verbatim>\<open>break\<close>s: the result is true as soon as one rectangle
  of one obstacle is hit.
\<close>

definition collides :: "real \<Rightarrow> real \<Rightarrow> real \<Rightarrow> Obstacle list \<Rightarrow> bool" where
  "collides h ufoX nextY obs = list_ex (\<lambda>ob. list_ex (hitsRect ufoX nextY) (rects h ob)) obs"

section \<open>The game canvas and its frame function\<close>

text \<open>
  The state of the canvas component that the frame function reads and writes: the
  \<^verbatim>\<open>useState\<close> cells and the \<^verbatim>\<open>useRef\<close> cells, each under its source name.
  \<open>rafRef\<close> records whether an animation frame is scheduled.  \<open>randomCalls\<close> counts
  the \<^verbatim>\<open>Math.random()\<close> calls of the spawner (see \<open>spawnObstacle\<close>).  The star field
  (\<^verbatim>\<open>parallax\<close>) is decoration that no other value depends on and is left out.
\<close>

record GameCanvas =
  height :: real
  ufoY :: real
  velocity :: real
  obstacles :: "Obstacle list"
  score :: int
  distance :: real
  isThrusting :: bool
  countdown :: "real option"
  countdownStartRef :: "real option"
  lastTimeRef :: "real option"
  rafRef :: bool
  obstacleIdRef :: nat
  randomCalls :: nat

text \<open>
  What one call of \<^verbatim>\<open>tick\<close> does besides updating the state: \<open>onGameOver\<close> is the
  argument pair of the \<^verbatim>\<open>onGameOver(newScore, newDistance)\<close> call when the frame makes
  it.  The two remaining fields trace the collision code the frame executed:
  \<open>boundsTested\<close> holds when the floor and ceiling comparisons were evaluated, and
  \<open>collisionTestedAt\<close> is the vertical position handed to the obstacle loop when that
  loop was entered.
\<close>

record Frame =
  canvas :: GameCanvas
  onGameOver :: "(int \<times> real) option"
  boundsTested :: bool
  collisionTestedAt :: "real option"

text \<open>
  \<^verbatim>\<open>resetGame\<close>: centre the craft, clear the counters, lay out
  \<^verbatim>\<open>Math.ceil(960 / OBSTACLE_SPACING) + 2\<close> obstacles from x = 480 and arm the countdown.
\<close>

definition resetGame :: "(nat \<Rightarrow> real) \<Rightarrow> GameCanvas \<Rightarrow> GameCanvas" where
  "resetGame rnd s =
     (let midY = height s / 2;
          g = gap (getCurrentParams 0);
          visibleCount = nat \<lceil>960 / OBSTACLE_SPACING\<rceil> + 2;
          r = fold (\<lambda>i acc.
                 let sp = spawnObstacle rnd (height s) (snd acc)
                            (480 + real i * OBSTACLE_SPACING) g
                 in (fst acc @ [fst sp], snd sp))
               [0 ..< visibleCount] ([], (obstacleIdRef s, randomCalls s))
      in s\<lparr> ufoY := midY, velocity := 0, score := 0, distance := 0,
             obstacles := fst r,
             obstacleIdRef := fst (snd r), randomCalls := snd (snd r),
             countdown := Some COUNTDOWN_DURATION,
             countdownStartRef := None,
             lastTimeRef := None \<rparr>)"

text \<open>
  The physics lines of the play branch: the velocity after damping, the intended
  position, and the two clamps in the order of the source, each setting the hit flag.
\<close>

record Physics =
  nextVelocity :: real
  intendedY :: real
  nextY :: real
  hitBound :: bool

definition physics :: "real \<Rightarrow> real \<Rightarrow> real \<Rightarrow> real \<Rightarrow> bool \<Rightarrow> Physics" where
  "physics h y v delta thrusting =
     (let accel = GRAVITY + (if thrusting then THRUST_ACCEL else 0);
          nv = (v + accel * delta) * 0.995;
          y0 = y + nv * delta;
          floorY = h - 40;
          ceilingY = 40;
          hitFloor = (y0 + UFO_RADIUS \<ge> floorY);
          y1 = (if hitFloor then floorY - UFO_RADIUS else y0);
          hitCeiling = (y1 - UFO_RADIUS \<le> ceilingY);
          y2 = (if hitCeiling then ceilingY + UFO_RADIUS else y1)
      in \<lparr> nextVelocity = nv, intendedY = y0, nextY = y2,
           hitBound = (hitFloor \<or> hitCeiling) \<rparr>)"

text \<open>
  The countdown branch of \<^verbatim>\<open>tick\<close> (reached with \<open>remaining > 0\<close>): warm-up scroll at
  80 units per second, refill with the gap of distance 0, ease of the craft towards the
  centre; then the early return.
\<close>

definition countdownFrame :: "(nat \<Rightarrow> real) \<Rightarrow> real \<Rightarrow> real \<Rightarrow> GameCanvas \<Rightarrow> Frame" where
  "countdownFrame rnd delta remaining s =
     (let warmupSpeed = 80;
          newDistance = distance s + warmupSpeed * delta;
          updatedObstacles = map (\<lambda>ob. ob\<lparr>o_x := o_x ob - warmupSpeed * delta\<rparr>) (obstacles s);
          g = gap (getCurrentParams 0);
          act = refill rnd (height s) g updatedObstacles (obstacleIdRef s, randomCalls s);
          centerY = height s / 2;
          interp = 1 - (0.25 powr delta);
          floatedY = ufoY s + (centerY - ufoY s) * interp
      in \<lparr> canvas = s\<lparr> ufoY := floatedY,
                        obstacles := fst act,
                        distance := newDistance,
                        countdown := Some remaining,
                        obstacleIdRef := fst (snd act),
                        randomCalls := snd (snd act),
                        rafRef := True \<rparr>,
           onGameOver = None,
           boundsTested = False,
           collisionTestedAt = None \<rparr>)"

text \<open>
  The play branch of \<^verbatim>\<open>tick\<close>, from \<^verbatim>\<open>getCurrentParams(newDistance)\<close> to the end: physics,
  obstacle movement, refill, score update, distance, the obstacle loop guarded by
  \<^verbatim>\<open>if (!hit)\<close>, then either the game-over commit or the regular commit (which stores
  the cleared countdown).
\<close>

definition playFrame :: "(nat \<Rightarrow> real) \<Rightarrow> real \<Rightarrow> GameCanvas \<Rightarrow> Frame" where
  "playFrame rnd delta s =
     (let p = getCurrentParams (distance s);
          ph = physics (height s) (ufoY s) (velocity s) delta (isThrusting s);
          updatedObstacles = map (\<lambda>ob. ob\<lparr>o_x := o_x ob - speed p * delta\<rparr>) (obstacles s);
          act = refill rnd (height s) (gap p) updatedObstacles (obstacleIdRef s, randomCalls s);
          sc = scoreUpdate (fst act) (score s);
          newDistance = distance s + speed p * delta;
          ufoX = 960 / 2 - 80;
          hit = (hitBound ph \<or> collides (height s) ufoX (nextY ph) (fst sc));
          s' = s\<lparr> ufoY := nextY ph,
                  obstacles := fst sc,
                  score := snd sc,
                  distance := newDistance,
                  obstacleIdRef := fst (snd act),
                  randomCalls := snd (snd act) \<rparr>
      in if hit then
           \<lparr> canvas = s'\<lparr> velocity := 0, rafRef := False, lastTimeRef := None \<rparr>,
             onGameOver = Some (snd sc, newDistance),
             boundsTested = True,
             collisionTestedAt = (if hitBound ph then None else Some (nextY ph)) \<rparr>
         else
           \<lparr> canvas = s'\<lparr> velocity := nextVelocity ph, countdown := None, rafRef := True \<rparr>,
             onGameOver = None,
             boundsTested = True,
             collisionTestedAt = (if hitBound ph then None else Some (nextY ph)) \<rparr>)"

text \<open>
  The elapsed time of a frame in seconds, \<^verbatim>\<open>delta\<close> after the stability clamp: only a raw
  difference above \<^verbatim>\<open>MAX_FPS\<close> milliseconds is capped at 1/30 s.
\<close>

definition frameDelta :: "real \<Rightarrow> real \<Rightarrow> real" where
  "frameDelta timestamp lastTime =
     (if timestamp - lastTime > MAX_FPS
      then min ((timestamp - lastTime) / 1000) (1 / 30)
      else (timestamp - lastTime) / 1000)"

text \<open>
  The countdown time left at a frame, \<^verbatim>\<open>remaining\<close> in the source: the start of the
  countdown is the stored one, or this frame's timestamp when none is stored yet.
\<close>

definition countdownStart :: "real \<Rightarrow> GameCanvas \<Rightarrow> real" where
  "countdownStart timestamp s =
     (case countdownStartRef s of None \<Rightarrow> timestamp | Some t \<Rightarrow> t)"

definition remainingAt :: "real \<Rightarrow> GameCanvas \<Rightarrow> real" where
  "remainingAt timestamp s =
     (let elapsed = (timestamp - countdownStart timestamp s) / 1000
      in COUNTDOWN_DURATION - elapsed)"

text \<open>
  \<^verbatim>\<open>tick(timestamp)\<close>.  The component schedules it only while the shell's phase is
  \<^verbatim>\<open>running\<close>; the function itself does not read the phase.
  The first frame after a (re)start only records the timestamp.
  A frame whose elapsed time is not positive only reschedules.  Otherwise the elapsed
  time is clamped, the timestamp recorded, and the frame is a countdown frame while the
  countdown is set and has time remaining, a play frame otherwise.
\<close>

definition tick :: "(nat \<Rightarrow> real) \<Rightarrow> real \<Rightarrow> GameCanvas \<Rightarrow> Frame" where
  "tick rnd timestamp s =
     (case lastTimeRef s of
        None \<Rightarrow>
          \<lparr> canvas = s\<lparr> lastTimeRef := Some timestamp, rafRef := True \<rparr>,
            onGameOver = None, boundsTested = False, collisionTestedAt = None \<rparr>
      | Some lastTime \<Rightarrow>
          if (timestamp - lastTime) / 1000 \<le> 0 then
            \<lparr> canvas = s\<lparr> rafRef := True \<rparr>,
              onGameOver = None, boundsTested = False, collisionTestedAt = None \<rparr>
          else
            (let delta = frameDelta timestamp lastTime;
                 s1 = s\<lparr> lastTimeRef := Some timestamp \<rparr>
             in case countdown s of
                  None \<Rightarrow> playFrame rnd delta s1
                | Some c \<Rightarrow>
                    (let s2 = s1\<lparr> countdownStartRef := Some (countdownStart timestamp s) \<rparr>;
                         remaining = remainingAt timestamp s
                     in if remaining \<le> 0 then playFrame rnd delta s2
                        else countdownFrame rnd delta remaining s2)))"

text \<open>
  A frame of active play: a timestamp is recorded, time has passed, and the countdown
  is either absent or has run out at this frame.
\<close>

definition activePlay :: "real \<Rightarrow> GameCanvas \<Rightarrow> bool" where
  "activePlay timestamp s =
     (case lastTimeRef s of
        None \<Rightarrow> False
      | Some lastTime \<Rightarrow>
          (timestamp - lastTime) / 1000 > 0
          \<and> (case countdown s of None \<Rightarrow> True | Some c \<Rightarrow> remainingAt timestamp s \<le> 0))"

text \<open>The elapsed time the frame integrates, when a timestamp is recorded.\<close>

definition dtOf :: "real \<Rightarrow> GameCanvas \<Rightarrow> real" where
  "dtOf timestamp s =
     (case lastTimeRef s of None \<Rightarrow> 0 | Some lastTime \<Rightarrow> frameDelta timestamp lastTime)"

text \<open>
  The obstacles of a running game all have the width \<open>OBSTACLE_WIDTH\<close>: they are made by
  \<open>spawnObstacle\<close> only, and no code changes the width afterwards.
\<close>

definition standardWidths :: "Obstacle list \<Rightarrow> bool" where
  "standardWidths obs = list_all (\<lambda>ob. o_width ob = OBSTACLE_WIDTH) obs"

section \<open>The game shell: statistics and the stored best score\<close>

datatype GamePhase = Idle | Running | Paused | Over

text \<open>
  \<^verbatim>\<open>GameStats\<close>.  The fields \<^verbatim>\<open>score\<close> and \<^verbatim>\<open>distance\<close> carry a prefix, as the canvas
  state has cells of the same names.
\<close>

record GameStats =
  stats_score :: int
  bestScore :: int
  stats_distance :: real
  runs :: int

text \<open>
  The host's \<^verbatim>\<open>localStorage\<close> is a map from keys to strings; \<open>None\<close> for the whole
  storage stands for an environment without \<^verbatim>\<open>window\<close>.
\<close>

type_synonym Storage = "string \<rightharpoonup> string"

definition bestKey :: string where
  "bestKey = ''ufo-flappy-best''"

subsection \<open>The host functions the shell calls\<close>

text \<open>
  \<^verbatim>\<open>Number.parseInt(string)\<close> with no radix, after the language standard: leading white
  space is dropped, a sign is read, a prefix \<^verbatim>\<open>0x\<close> or \<^verbatim>\<open>0X\<close> selects radix 16 (radix 10
  otherwise), and the longest prefix of digits of that radix is the number; no digit at
  all gives \<^verbatim>\<open>NaN\<close>, the value \<open>None\<close> here.  Characters are code units below 256, and
  the result is an unbounded integer (the rounding of long digit strings to a double is
  not part of the model).
\<close>

definition isWhiteSpace :: "char \<Rightarrow> bool" where
  "isWhiteSpace c = ((of_char c :: nat) \<in> {9, 10, 11, 12, 13, 32, 160})"

definition digitValue :: "nat \<Rightarrow> char \<Rightarrow> nat option" where
  "digitValue R c =
     (let n = (of_char c :: nat);
          v = (if 48 \<le> n \<and> n \<le> 57 then n - 48
               else if 97 \<le> n \<and> n \<le> 122 then n - 87
               else if 65 \<le> n \<and> n \<le> 90 then n - 55
               else R)
      in if v < R then Some v else None)"

fun digitPrefix :: "nat \<Rightarrow> string \<Rightarrow> nat list" where
  "digitPrefix R [] = []"
| "digitPrefix R (c # cs) =
     (case digitValue R c of
        None \<Rightarrow> []
      | Some v \<Rightarrow> v # digitPrefix R cs)"

definition mathInt :: "nat \<Rightarrow> nat list \<Rightarrow> nat" where
  "mathInt R Z = foldl (\<lambda>acc v. acc * R + v) 0 Z"

definition jsParseInt :: "string \<Rightarrow> int option" where
  "jsParseInt inputString =
     (let S = dropWhile isWhiteSpace inputString;
          sign = (case S of c # cs \<Rightarrow> if c = CHR ''-'' then - 1 else 1 | [] \<Rightarrow> (1 :: int));
          S1 = (case S of
                  c # cs \<Rightarrow> if c = CHR ''+'' \<or> c = CHR ''-'' then cs else S
                | [] \<Rightarrow> S);
          hex = (take 2 S1 = ''0x'' \<or> take 2 S1 = ''0X'');
          R = (if hex then 16 else 10);
          S2 = (if hex then drop 2 S1 else S1);
          Z = digitPrefix R S2
      in if Z = [] then None else Some (sign * int (mathInt R Z)))"

text \<open>
  \<^verbatim>\<open>String(n)\<close> for an integer \<open>n\<close>: its decimal digits, after a minus sign when it is
  negative (the exponent notation of numbers from \<open>10^21\<close> on is not part of the model).
\<close>

fun natDigits :: "nat \<Rightarrow> string" where
  "natDigits n =
     (if n < 10 then [char_of (48 + n)]
      else natDigits (n div 10) @ [char_of (48 + n mod 10)])"

declare natDigits.simps [simp del]

definition jsString :: "int \<Rightarrow> string" where
  "jsString n = (if n < 0 then CHR ''-'' # natDigits (nat (- n)) else natDigits (nat n))"

subsection \<open>The shell\<close>

text \<open>
  \<^verbatim>\<open>createInitialStats\<close>: the stored string is used when it is present and not empty
  (a truthy string); \<^verbatim>\<open>Number.parseInt(stored) || 0\<close> turns \<^verbatim>\<open>NaN\<close> and 0 into 0.
\<close>

definition createInitialStats :: "Storage option \<Rightarrow> GameStats" where
  "createInitialStats window =
     (let stored = (case window of None \<Rightarrow> None | Some ls \<Rightarrow> ls bestKey);
          best = (case stored of
                    None \<Rightarrow> 0
                  | Some str \<Rightarrow>
                      if str = [] then 0
                      else (case jsParseInt str of
                              None \<Rightarrow> 0
                            | Some n \<Rightarrow> if n = 0 then 0 else n))
      in \<lparr> stats_score = 0, bestScore = best, stats_distance = 0, runs = 0 \<rparr>)"

text \<open>
  The state of the shell component together with the host storage it can write to.
\<close>

record GameShell =
  phase :: GamePhase
  stats :: GameStats
  lastScore :: int
  storage :: "Storage option"

text \<open>\<^verbatim>\<open>Partial<GameStats>\<close>: each field present or absent.\<close>

record StatsPatch =
  patch_score :: "int option"
  patch_bestScore :: "int option"
  patch_distance :: "real option"
  patch_runs :: "int option"

text \<open>
  \<^verbatim>\<open>updateStats(patch)\<close>: merge the patch into the statistics; when the best score of
  the merged record differs from the previous one (and there is a \<^verbatim>\<open>window\<close>), store it
  under the key.
\<close>

definition updateStats :: "StatsPatch \<Rightarrow> GameShell \<Rightarrow> GameShell" where
  "updateStats patch w =
     (let prev = stats w;
          next = \<lparr> stats_score = (case patch_score patch of None \<Rightarrow> stats_score prev | Some v \<Rightarrow> v),
                   bestScore = (case patch_bestScore patch of None \<Rightarrow> bestScore prev | Some v \<Rightarrow> v),
                   stats_distance =
                     (case patch_distance patch of None \<Rightarrow> stats_distance prev | Some v \<Rightarrow> v),
                   runs = (case patch_runs patch of None \<Rightarrow> runs prev | Some v \<Rightarrow> v) \<rparr>
      in w\<lparr> stats := next,
             storage :=
               (case storage w of
                  None \<Rightarrow> None
                | Some ls \<Rightarrow>
                    if bestScore next \<noteq> bestScore prev
                    then Some (ls(bestKey \<mapsto> jsString (bestScore next)))
                    else Some ls) \<rparr>)"

definition handleStart :: "GameShell \<Rightarrow> GameShell" where
  "handleStart w =
     updateStats \<lparr> patch_score = Some 0, patch_bestScore = None,
                   patch_distance = Some 0, patch_runs = Some (runs (stats w) + 1) \<rparr>
       (w\<lparr> phase := Running, lastScore := 0 \<rparr>)"

definition handlePauseToggle :: "GameShell \<Rightarrow> GameShell" where
  "handlePauseToggle w =
     w\<lparr> phase := (if phase w = Running then Paused
                  else if phase w = Paused then Running
                  else phase w) \<rparr>"

text \<open>
  \<^verbatim>\<open>handleGameOver(score, distance)\<close>: the statistics are replaced through \<^verbatim>\<open>setStats\<close>
  directly, not through \<^verbatim>\<open>updateStats\<close>.
\<close>

definition handleGameOver :: "int \<Rightarrow> real \<Rightarrow> GameShell \<Rightarrow> GameShell" where
  "handleGameOver sc d w =
     (let prev = stats w
      in w\<lparr> phase := Over,
             lastScore := sc,
             stats := prev\<lparr> stats_score := sc,
                             stats_distance := d,
                             bestScore := (if sc > bestScore prev then sc else bestScore prev) \<rparr> \<rparr>)"

definition handleRestart :: "GameShell \<Rightarrow> GameShell" where
  "handleRestart w =
     updateStats \<lparr> patch_score = Some 0, patch_bestScore = None,
                   patch_distance = Some 0, patch_runs = None \<rparr>
       (w\<lparr> phase := Running, lastScore := 0 \<rparr>)"

text \<open>The callbacks of the shell as events, and a session as a list of them.\<close>

datatype ShellEvent = Start | PauseToggle | GameOver int real | Restart

fun shellStep :: "GameShell \<Rightarrow> ShellEvent \<Rightarrow> GameShell" where
  "shellStep w Start = handleStart w"
| "shellStep w PauseToggle = handlePauseToggle w"
| "shellStep w (GameOver sc d) = handleGameOver sc d w"
| "shellStep w Restart = handleRestart w"

definition session :: "GameShell \<Rightarrow> ShellEvent list \<Rightarrow> GameShell" where
  "session w evs = foldl shellStep w evs"

text \<open>The shell as it mounts: idle, with the statistics read from the storage.\<close>

definition mountShell :: "Storage option \<Rightarrow> GameShell" where
  "mountShell window =
     \<lparr> phase = Idle, stats = createInitialStats window, lastScore = 0, storage = window \<rparr>"

section \<open>Example states\<close>

text \<open>
  A state in active play on the default 960 by 440 field: the craft at rest in the
  middle, one obstacle about to leave the craft's column, the last frame taken at
  time 0.
\<close>

definition playState :: GameCanvas where
  "playState =
     \<lparr> height = 440, ufoY = 220, velocity = 0,
       obstacles = [\<lparr> o_id = 0, o_x = 3419 / 10, o_gapY = 220, o_gapHeight = 220,
                      o_width = 80, o_passed = False \<rparr>],
       score = 0, distance = 0, isThrusting = False,
       countdown = None, countdownStartRef = None, lastTimeRef = Some 0,
       rafRef = True, obstacleIdRef = 1, randomCalls = 1 \<rparr>"

text \<open>
  A state in the countdown: the craft thrusting at the floor with a large downward
  velocity, the countdown started at time 0 and 2 seconds of it left at the last
  frame, taken at time 1000.
\<close>

definition countdownState :: GameCanvas where
  "countdownState =
     \<lparr> height = 440, ufoY = 378, velocity = 900,
       obstacles = [\<lparr> o_id = 0, o_x = 380, o_gapY = 120, o_gapHeight = 140,
                      o_width = 80, o_passed = False \<rparr>],
       score = 0, distance = 80, isThrusting = True,
       countdown = Some 2, countdownStartRef = Some 0, lastTimeRef = Some 1000,
       rafRef = True, obstacleIdRef = 1, randomCalls = 1 \<rparr>"



text \<open>The random source that always returns one half.\<close>

definition half :: "nat \<Rightarrow> real" where
  "half k = 1 / 2"

section \<open>Properties of the difficulty model\<close>

lemma getDifficultyFactor_range:
  "0 \<le> getDifficultyFactor d \<and> getDifficultyFactor d \<le> 1"
  by (simp add: getDifficultyFactor_def DIFFICULTY_MAX_DISTANCE_def)

lemma getDifficultyFactor_mono:
  "d1 \<le> d2 \<Longrightarrow> getDifficultyFactor d1 \<le> getDifficultyFactor d2"
  by (simp add: getDifficultyFactor_def DIFFICULTY_MAX_DISTANCE_def divide_right_mono)

lemma ease_mono:
  assumes "d1 \<le> d2"
  shows "getDifficultyFactor d1 * getDifficultyFactor d1
           \<le> getDifficultyFactor d2 * getDifficultyFactor d2"
proof -
  have "0 \<le> getDifficultyFactor d1"
    using getDifficultyFactor_range by blast
  moreover have "getDifficultyFactor d1 \<le> getDifficultyFactor d2"
    using assms by (rule getDifficultyFactor_mono)
  ultimately show ?thesis
    by (simp add: mult_mono)
qed

text \<open>
  Claim C5.  For distances \<open>d1 < d2\<close>, both within \<open>[0, DIFFICULTY_MAX_DISTANCE]\<close>,
  the speed at \<open>d2\<close> is at least the speed at \<open>d1\<close> and the gap at \<open>d2\<close> is at most
  the gap at \<open>d1\<close>.  The function is a HOL function of its distance argument alone,
  so it is deterministic and has no effect.
\<close>

theorem getCurrentParams_monotonic:
  assumes "0 \<le> d1" and "d1 < d2" and "d2 \<le> DIFFICULTY_MAX_DISTANCE"
  shows "speed (getCurrentParams d2) \<ge> speed (getCurrentParams d1)
       \<and> gap (getCurrentParams d2) \<le> gap (getCurrentParams d1)"
proof -
  have e: "getDifficultyFactor d1 * getDifficultyFactor d1
             \<le> getDifficultyFactor d2 * getDifficultyFactor d2"
    using assms(2) by (intro ease_mono) simp
  have "(MAX_SPEED - BASE_SPEED) * (getDifficultyFactor d1 * getDifficultyFactor d1)
          \<le> (MAX_SPEED - BASE_SPEED) * (getDifficultyFactor d2 * getDifficultyFactor d2)"
    using e by (intro mult_left_mono) (simp_all add: MAX_SPEED_def BASE_SPEED_def)
  moreover have "(OBSTACLE_MIN_GAP - OBSTACLE_BASE_GAP)
                   * (getDifficultyFactor d2 * getDifficultyFactor d2)
          \<le> (OBSTACLE_MIN_GAP - OBSTACLE_BASE_GAP)
                   * (getDifficultyFactor d1 * getDifficultyFactor d1)"
    using e by (intro mult_left_mono_neg)
      (simp_all add: OBSTACLE_MIN_GAP_def OBSTACLE_BASE_GAP_def)
  ultimately show ?thesis
    by (simp add: getCurrentParams_def Let_def)
qed

theorem getCurrentParams_monotonic_witness:
  "(0::real) \<le> 1500 \<and> (1500::real) < 3000 \<and> 3000 \<le> DIFFICULTY_MAX_DISTANCE
   \<and> speed (getCurrentParams 1500) = 210 \<and> speed (getCurrentParams 3000) = 270
   \<and> gap (getCurrentParams 1500) = 1900 / 9 \<and> gap (getCurrentParams 3000) = 1660 / 9
   \<and> speed (getCurrentParams 3000) \<ge> speed (getCurrentParams 1500)
   \<and> gap (getCurrentParams 3000) \<le> gap (getCurrentParams 1500)"
  using getCurrentParams_monotonic [of 1500 3000]
  by (simp add: getCurrentParams_def getDifficultyFactor_def Let_def tuning_defs)

section \<open>The obstacle pipeline after a refill\<close>

lemma needed_eq: "needed = 7"
  by (simp add: needed_def OBSTACLE_SPACING_def)

lemma fold_max_Max: "fold max xs (a::real) = Max (set (a # xs))"
  using Max.set_eq_fold [of a xs] by simp

lemma nextSpawnX_Max:
  "nextSpawnX active =
     (if active = [] then 480 else Max (o_x ` set active) + OBSTACLE_SPACING)"
  by (cases active) (simp_all add: nextSpawnX_def fold_max_Max)

lemma pipelineLoop_length:
  "length (fst (pipelineLoop rnd h g n active refs)) = max n (length active)"
proof (induction rnd h g n active refs rule: pipelineLoop.induct)
  case (1 rnd h g n active refs)
  show ?case
  proof (cases "length active < n")
    case True
    then show ?thesis
      using "1.IH" [OF True refl refl]
      by (subst pipelineLoop.simps) (simp add: Let_def)
  next
    case False
    then show ?thesis
      by (subst pipelineLoop.simps) simp
  qed
qed

lemma pipelineLoop_prefix:
  "take (length active) (fst (pipelineLoop rnd h g n active refs)) = active"
proof (induction rnd h g n active refs rule: pipelineLoop.induct)
  case (1 rnd h g n active refs)
  show ?case
  proof (cases "length active < n")
    case True
    let ?sp = "spawnObstacle rnd h refs (nextSpawnX active) g"
    let ?res = "fst (pipelineLoop rnd h g n (active @ [fst ?sp]) (snd ?sp))"
    have ih: "take (Suc (length active)) ?res = active @ [fst ?sp]"
      using "1.IH" [OF True refl refl] by simp
    have "take (length active) ?res = take (length active) (take (Suc (length active)) ?res)"
      by (simp add: min_def)
    also have "\<dots> = active"
      by (simp add: ih)
    finally show ?thesis
      using True by (subst pipelineLoop.simps) (simp add: Let_def)
  next
    case False
    then show ?thesis
      by (subst pipelineLoop.simps) simp
  qed
qed


lemma pipelineLoop_invariant:
  "\<forall>ob\<in>set active. I ob \<Longrightarrow>
   \<forall>act r. (\<forall>ob\<in>set act. I ob) \<longrightarrow> I (fst (spawnObstacle rnd h r (nextSpawnX act) g)) \<Longrightarrow>
   \<forall>ob\<in>set (fst (pipelineLoop rnd h g n active refs)). I ob"
proof (induction rnd h g n active refs rule: pipelineLoop.induct)
  case (1 rnd h g n active refs)
  show ?case
  proof (cases "length active < n")
    case True
    let ?sp = "spawnObstacle rnd h refs (nextSpawnX active) g"
    have "I (fst ?sp)"
      using "1.prems" by blast
    then have "\<forall>ob\<in>set (active @ [fst ?sp]). I ob"
      using "1.prems"(1) by simp
    then have "\<forall>ob\<in>set (fst (pipelineLoop rnd h g n (active @ [fst ?sp]) (snd ?sp))). I ob"
      using "1.prems"(2) by (intro "1.IH" [OF True refl refl])
    then show ?thesis
      using True by (subst pipelineLoop.simps) (simp add: Let_def)
  next
    case False
    then show ?thesis
      using "1.prems" by (subst pipelineLoop.simps) simp
  qed
qed

text \<open>What the loop appends: position, flag and identifier of each spawned obstacle.\<close>

lemma pipelineLoop_spawned:
  "length active \<le> i \<Longrightarrow> i < length (fst (pipelineLoop rnd h g n active refs)) \<Longrightarrow>
   (let res = fst (pipelineLoop rnd h g n active refs) in
      o_x (res ! i) = nextSpawnX (take i res)
    \<and> \<not> o_passed (res ! i)
    \<and> o_id (res ! i) = fst refs + (i - length active))"
proof (induction rnd h g n active refs rule: pipelineLoop.induct)
  case (1 rnd h g n active refs)
  show ?case
  proof (cases "length active < n")
    case True
    let ?sp = "spawnObstacle rnd h refs (nextSpawnX active) g"
    let ?res = "fst (pipelineLoop rnd h g n (active @ [fst ?sp]) (snd ?sp))"
    have unf: "fst (pipelineLoop rnd h g n active refs) = ?res"
      using True by (subst pipelineLoop.simps) (simp add: Let_def)
    have pre: "take (Suc (length active)) ?res = active @ [fst ?sp]"
      using pipelineLoop_prefix [of "active @ [fst ?sp]" rnd h g n "snd ?sp"] by simp
    have ilen: "i < length ?res"
      using "1.prems"(2) unf by simp
    show ?thesis
    proof (cases "i = length active")
      case True
      have "?res ! i = (take (Suc (length active)) ?res) ! i"
        using True by simp
      then have a: "?res ! i = fst ?sp"
        using True pre by simp
      have "take i ?res = take i (take (Suc (length active)) ?res)"
        using True by (simp add: min_def)
      then have b: "take i ?res = active"
        using True pre by simp
      show ?thesis
        using a b True unf by (simp add: Let_def spawnObstacle_def)
    next
      case False
      then have "length (active @ [fst ?sp]) \<le> i"
        using "1.prems"(1) by simp
      from "1.IH" [OF True refl refl this] ilen
      show ?thesis
        using unf False "1.prems"(1) by (simp add: Let_def spawnObstacle_def)
    qed
  next
    case False
    then have "fst (pipelineLoop rnd h g n active refs) = active"
      by (subst pipelineLoop.simps) simp
    then show ?thesis
      using "1.prems" by simp
  qed
qed

lemma pipelineLoop_nextId:
  "fst (snd (pipelineLoop rnd h g n active refs)) = fst refs + (max n (length active) - length active)"
proof (induction rnd h g n active refs rule: pipelineLoop.induct)
  case (1 rnd h g n active refs)
  show ?case
  proof (cases "length active < n")
    case True
    then show ?thesis
      using "1.IH" [OF True refl refl]
      by (subst pipelineLoop.simps) (simp add: Let_def spawnObstacle_def)
  next
    case False
    then show ?thesis
      by (subst pipelineLoop.simps) simp
  qed
qed


lemma spawn_keeps_right:
  "\<forall>ob\<in>set act. o_x ob + o_width ob > - 60 \<and> o_width ob = OBSTACLE_WIDTH \<Longrightarrow>
   o_x (fst (spawnObstacle rnd h r (nextSpawnX act) g))
     + o_width (fst (spawnObstacle rnd h r (nextSpawnX act) g)) > - 60
   \<and> o_width (fst (spawnObstacle rnd h r (nextSpawnX act) g)) = OBSTACLE_WIDTH"
proof (cases act)
  case Nil
  then show ?thesis
    by (simp add: spawnObstacle_def nextSpawnX_def OBSTACLE_WIDTH_def Let_def)
next
  case (Cons a rest)
  assume inv: "\<forall>ob\<in>set act. o_x ob + o_width ob > - 60 \<and> o_width ob = OBSTACLE_WIDTH"
  have "o_x a \<le> Max (o_x ` set act)"
    using Cons by simp
  moreover have "o_x a > - 140"
    using inv Cons by (simp add: OBSTACLE_WIDTH_def)
  moreover have "nextSpawnX act = Max (o_x ` set act) + 260"
    using Cons by (simp add: nextSpawnX_Max OBSTACLE_SPACING_def)
  ultimately have "nextSpawnX act > 120"
    by linarith
  then show ?thesis
    by (simp add: spawnObstacle_def OBSTACLE_WIDTH_def Let_def)
qed

text \<open>
  Claim C6.  After the refill step the active list holds at least
  \<open>needed = \<lceil>960 / 260\<rceil> + 3 = 7\<close> obstacles and every obstacle has
  \<open>x + width \<ge> -60\<close>.  The obstacles that survive the filter come first, unchanged; every
  obstacle after them was spawned by the loop: it stands at 480 when the list before it
  was empty and at the maximal \<open>x\<close> of the list before it plus \<open>OBSTACLE_SPACING\<close>
  otherwise, its \<open>passed\<close> flag is false, and its identifier is the next one in sequence.
  The obstacles of a running game all have the width \<open>OBSTACLE_WIDTH\<close> (they are made by
  \<open>spawnObstacle\<close> only), which is the hypothesis.
\<close>

theorem refill_pipeline:
  assumes "\<forall>ob\<in>set updatedObstacles. o_width ob = OBSTACLE_WIDTH"
  shows "let kept = filter (\<lambda>ob. o_x ob + o_width ob > - 60) updatedObstacles;
             r = refill rnd h gapH updatedObstacles refs;
             active = fst r
         in needed = 7 \<and> length active \<ge> needed
          \<and> (\<forall>ob\<in>set active. o_x ob + o_width ob \<ge> - 60)
          \<and> take (length kept) active = kept
          \<and> fst (snd r) = fst refs + (length active - length kept)
          \<and> (\<forall>i. length kept \<le> i \<and> i < length active \<longrightarrow>
                o_x (active ! i) =
                  (if take i active = [] then 480
                   else Max (o_x ` set (take i active)) + OBSTACLE_SPACING)
              \<and> \<not> o_passed (active ! i)
              \<and> o_id (active ! i) = fst refs + (i - length kept))"
proof -
  define kept where "kept = filter (\<lambda>ob. o_x ob + o_width ob > - 60) updatedObstacles"
  define active where "active = fst (pipelineLoop rnd h gapH needed kept refs)"
  have len: "length active = max needed (length kept)"
    unfolding active_def by (rule pipelineLoop_length)
  have pre: "take (length kept) active = kept"
    unfolding active_def by (rule pipelineLoop_prefix)
  have inv0: "\<forall>ob\<in>set kept. o_x ob + o_width ob > - 60 \<and> o_width ob = OBSTACLE_WIDTH"
    using assms by (auto simp: kept_def)
  have "\<forall>ob\<in>set active. o_x ob + o_width ob > - 60 \<and> o_width ob = OBSTACLE_WIDTH"
    unfolding active_def
    using inv0 by (rule pipelineLoop_invariant) (intro allI impI spawn_keeps_right)
  then have right: "\<forall>ob\<in>set active. o_x ob + o_width ob \<ge> - 60"
    by fastforce
  have ids: "fst (snd (pipelineLoop rnd h gapH needed kept refs))
               = fst refs + (length active - length kept)"
    using len by (simp add: pipelineLoop_nextId)
  have sp: "\<forall>i. length kept \<le> i \<and> i < length active \<longrightarrow>
                o_x (active ! i) =
                  (if take i active = [] then 480
                   else Max (o_x ` set (take i active)) + OBSTACLE_SPACING)
              \<and> \<not> o_passed (active ! i)
              \<and> o_id (active ! i) = fst refs + (i - length kept)"
  proof (intro allI impI)
    fix i
    assume "length kept \<le> i \<and> i < length active"
    then show "o_x (active ! i) =
                  (if take i active = [] then 480
                   else Max (o_x ` set (take i active)) + OBSTACLE_SPACING)
              \<and> \<not> o_passed (active ! i)
              \<and> o_id (active ! i) = fst refs + (i - length kept)"
      using pipelineLoop_spawned [of kept i rnd h gapH needed refs]
      unfolding active_def by (simp add: Let_def nextSpawnX_Max)
  qed
  show ?thesis
    using len pre right ids sp needed_eq
    unfolding Let_def refill_def kept_def [symmetric] active_def [symmetric]
    by simp
qed

theorem refill_pipeline_witness:
  "needed \<le> length (fst (refill (\<lambda>k. 1 / 2) 440 220
      [\<lparr> o_id = 0, o_x = - 150, o_gapY = 220, o_gapHeight = 220, o_width = 80, o_passed = True \<rparr>,
       \<lparr> o_id = 1, o_x = 110, o_gapY = 220, o_gapHeight = 220, o_width = 80, o_passed = False \<rparr>]
      (2, 2)))
   \<and> map o_x (fst (refill (\<lambda>k. 1 / 2) 440 220
      [\<lparr> o_id = 0, o_x = - 150, o_gapY = 220, o_gapHeight = 220, o_width = 80, o_passed = True \<rparr>,
       \<lparr> o_id = 1, o_x = 110, o_gapY = 220, o_gapHeight = 220, o_width = 80, o_passed = False \<rparr>]
      (2, 2))) = [110, 370, 630, 890, 1150, 1410, 1670]
   \<and> map o_id (fst (refill (\<lambda>k. 1 / 2) 440 220
      [\<lparr> o_id = 0, o_x = - 150, o_gapY = 220, o_gapHeight = 220, o_width = 80, o_passed = True \<rparr>,
       \<lparr> o_id = 1, o_x = 110, o_gapY = 220, o_gapHeight = 220, o_width = 80, o_passed = False \<rparr>]
      (2, 2))) = [1, 2, 3, 4, 5, 6, 7]"
proof -
  let ?obs = "[\<lparr> o_id = 0, o_x = - 150, o_gapY = 220, o_gapHeight = 220, o_width = 80, o_passed = True \<rparr>,
       \<lparr> o_id = 1, o_x = 110, o_gapY = 220, o_gapHeight = 220, o_width = 80, o_passed = False \<rparr>]"
  have h: "\<forall>ob\<in>set ?obs. o_width ob = OBSTACLE_WIDTH"
    by (simp add: OBSTACLE_WIDTH_def)
  have "needed \<le> length (fst (refill (\<lambda>k. 1 / 2) 440 220 ?obs (2, 2)))"
    using refill_pipeline [OF h, of "\<lambda>k. 1 / 2" 440 220 "(2, 2)"]
    by (simp add: Let_def)
  moreover have "map o_x (fst (refill (\<lambda>k. 1 / 2) 440 220 ?obs (2, 2)))
                   = [110, 370, 630, 890, 1150, 1410, 1670]"
    by code_simp
  moreover have "map o_id (fst (refill (\<lambda>k. 1 / 2) 440 220 ?obs (2, 2))) = [1, 2, 3, 4, 5, 6, 7]"
    by code_simp
  ultimately show ?thesis
    by blast
qed


section \<open>Properties of the frame function\<close>

lemma tick_activePlay:
  assumes "activePlay ts s"
  shows "tick rnd ts s =
           playFrame rnd (dtOf ts s)
             (s\<lparr> lastTimeRef := Some ts,
                 countdownStartRef :=
                   (case countdown s of
                      None \<Rightarrow> countdownStartRef s
                    | Some c \<Rightarrow> Some (countdownStart ts s)) \<rparr>)"
  using assms
  by (auto simp: activePlay_def tick_def dtOf_def Let_def split: option.splits)

lemma playFrame_ufoY:
  "ufoY (canvas (playFrame rnd delta s))
     = nextY (physics (height s) (ufoY s) (velocity s) delta (isThrusting s))"
  by (simp add: playFrame_def Let_def)


lemma playFrame_velocity:
  "velocity (canvas (playFrame rnd delta s)) =
     (if onGameOver (playFrame rnd delta s) = None
      then nextVelocity (physics (height s) (ufoY s) (velocity s) delta (isThrusting s))
      else 0)"
  by (simp add: playFrame_def Let_def)



text \<open>The frame of the example play state at time 10, evaluated.\<close>

lemma tick_playState:
  "tick half 10 playState =
     \<lparr> canvas =
         \<lparr> height = 440, ufoY = 880597 / 4000, velocity = 597 / 40,
           obstacles =
             [\<lparr> o_id = 0, o_x = 340, o_gapY = 220, o_gapHeight = 220, o_width = 80, o_passed = True \<rparr>,
              \<lparr> o_id = 1, o_x = 600, o_gapY = 220, o_gapHeight = 220, o_width = 80, o_passed = False \<rparr>,
              \<lparr> o_id = 2, o_x = 860, o_gapY = 220, o_gapHeight = 220, o_width = 80, o_passed = False \<rparr>,
              \<lparr> o_id = 3, o_x = 1120, o_gapY = 220, o_gapHeight = 220, o_width = 80, o_passed = False \<rparr>,
              \<lparr> o_id = 4, o_x = 1380, o_gapY = 220, o_gapHeight = 220, o_width = 80, o_passed = False \<rparr>,
              \<lparr> o_id = 5, o_x = 1640, o_gapY = 220, o_gapHeight = 220, o_width = 80, o_passed = False \<rparr>,
              \<lparr> o_id = 6, o_x = 1900, o_gapY = 220, o_gapHeight = 220, o_width = 80, o_passed = False \<rparr>],
           score = 1, distance = 19 / 10, isThrusting = False, countdown = None,
           countdownStartRef = None, lastTimeRef = Some 10, rafRef = True,
           obstacleIdRef = 7, randomCalls = 7 \<rparr>,
       onGameOver = None, boundsTested = True,
       collisionTestedAt = Some (880597 / 4000) \<rparr>"
  by code_simp

lemma activePlay_playState: "activePlay 10 playState"
  by (simp add: activePlay_def playState_def)

text \<open>
  Claim C9.  In a frame of active play, with \<open>dt\<close> the clamped elapsed time, the frame
  computes \<open>v' = (velocity + (GRAVITY + (thrusting ? THRUST_ACCEL : 0)) * dt) * 0.995\<close> and
  \<open>p' = position + v' * dt\<close>, then clamps: at or below the floor (\<open>height - 40\<close>) the
  position becomes \<open>floor - UFO_RADIUS\<close>, then at or above the ceiling (40) it becomes
  \<open>ceiling + UFO_RADIUS\<close>; either clamp sets the hit flag, so the frame reports game
  over.  The committed position is the clamped one; the committed velocity is \<open>v'\<close> in a
  frame that goes on and 0 in a frame that ends the run.
\<close>

theorem tick_physics:
  assumes "activePlay ts s"
  shows "let dt = dtOf ts s;
             v' = (velocity s + (GRAVITY + (if isThrusting s then THRUST_ACCEL else 0)) * dt) * 0.995;
             p' = ufoY s + v' * dt;
             floorY = height s - 40;
             ceilingY = 40;
             p1 = (if p' + UFO_RADIUS \<ge> floorY then floorY - UFO_RADIUS else p');
             p2 = (if p1 - UFO_RADIUS \<le> ceilingY then ceilingY + UFO_RADIUS else p1);
             f = tick rnd ts s
         in ufoY (canvas f) = p2
          \<and> ((p' + UFO_RADIUS \<ge> floorY \<or> p1 - UFO_RADIUS \<le> ceilingY) \<longrightarrow> onGameOver f \<noteq> None)
          \<and> velocity (canvas f) = (if onGameOver f = None then v' else 0)"
proof -
  define dt where "dt = dtOf ts s"
  define v' where
    "v' = (velocity s + (GRAVITY + (if isThrusting s then THRUST_ACCEL else 0)) * dt) * 0.995"
  define p' where "p' = ufoY s + v' * dt"
  define p1 where
    "p1 = (if p' + UFO_RADIUS \<ge> height s - 40 then height s - 40 - UFO_RADIUS else p')"
  define p2 where "p2 = (if p1 - UFO_RADIUS \<le> 40 then 40 + UFO_RADIUS else p1)"
  let ?ph = "physics (height s) (ufoY s) (velocity s) dt (isThrusting s)"
  let ?f = "tick rnd ts s"
  have pv: "nextVelocity ?ph = v'"
    by (simp add: physics_def Let_def v'_def)
  have py: "nextY ?ph = p2"
    by (simp add: physics_def Let_def p2_def p1_def p'_def v'_def)
  have pb: "hitBound ?ph = (p' + UFO_RADIUS \<ge> height s - 40 \<or> p1 - UFO_RADIUS \<le> 40)"
    by (simp add: physics_def Let_def p1_def p'_def v'_def)
  have f: "?f = playFrame rnd dt
             (s\<lparr> lastTimeRef := Some ts,
                 countdownStartRef :=
                   (case countdown s of
                      None \<Rightarrow> countdownStartRef s
                    | Some c \<Rightarrow> Some (countdownStart ts s)) \<rparr>)"
    unfolding dt_def by (rule tick_activePlay [OF assms])
  have 1: "ufoY (canvas ?f) = p2"
    unfolding f by (simp add: playFrame_ufoY py)
  have 2: "(p' + UFO_RADIUS \<ge> height s - 40 \<or> p1 - UFO_RADIUS \<le> 40) \<longrightarrow> onGameOver ?f \<noteq> None"
    unfolding f pb [symmetric] by (simp add: playFrame_def Let_def)
  have 3: "velocity (canvas ?f) = (if onGameOver ?f = None then v' else 0)"
    unfolding f by (simp add: playFrame_velocity pv)
  from 1 2 3 show ?thesis
    unfolding Let_def p2_def p1_def p'_def v'_def dt_def by blast
qed

theorem tick_physics_witness:
  "activePlay 10 playState
   \<and> ufoY (canvas (tick half 10 playState)) = 220 + 597 / 4000
   \<and> velocity (canvas (tick half 10 playState)) = 597 / 40
   \<and> onGameOver (tick half 10 playState) = None"
proof -
  have g: "onGameOver (tick half 10 playState) = None"
    by (simp add: tick_playState)
  show ?thesis
    using activePlay_playState g tick_physics [OF activePlay_playState, of half]
    by (simp add: Let_def dtOf_def frameDelta_def playState_def tuning_defs)
qed








text \<open>
  Claim C7.  A frame whose elapsed time is zero or negative is a no-op: position,
  velocity, score, distance, obstacles and countdown are unchanged (the whole state is,
  apart from the handle of the newly requested animation frame), and no game over is
  reported.
\<close>

theorem tick_degenerate:
  assumes "lastTimeRef s = Some lastTime" and "(ts - lastTime) / 1000 \<le> 0"
  shows "let f = tick rnd ts s
         in ufoY (canvas f) = ufoY s \<and> velocity (canvas f) = velocity s
          \<and> score (canvas f) = score s \<and> distance (canvas f) = distance s
          \<and> obstacles (canvas f) = obstacles s \<and> countdown (canvas f) = countdown s
          \<and> canvas f = s\<lparr> rafRef := True \<rparr>
          \<and> onGameOver f = None"
  using assms by (simp add: tick_def Let_def)

theorem tick_degenerate_witness:
  "canvas (tick half 0 playState) = playState
   \<and> onGameOver (tick half 0 playState) = None"
proof -
  have "lastTimeRef playState = Some 0"
    by (simp add: playState_def)
  from tick_degenerate [OF this, of 0 half] show ?thesis
    by (simp add: Let_def playState_def)
qed

text \<open>
  Claim C8.  While the countdown is set and has time remaining, a frame never reports
  game over: neither the bounds comparison nor the obstacle loop is executed, the
  velocity and the score are left alone, the next frame is requested, and the thrust
  input has no influence on the frame (the frame of a state with the input set to any
  \<open>b\<close> is the frame of the state itself, with only the stored input differing).
\<close>

theorem tick_countdown:
  assumes "countdown s = Some c" and "remainingAt ts s > 0"
  shows "let f = tick rnd ts s
         in onGameOver f = None
          \<and> \<not> boundsTested f
          \<and> collisionTestedAt f = None
          \<and> velocity (canvas f) = velocity s
          \<and> score (canvas f) = score s
          \<and> rafRef (canvas f)
          \<and> tick rnd ts (s\<lparr> isThrusting := b \<rparr>) = f\<lparr> canvas := (canvas f)\<lparr> isThrusting := b \<rparr> \<rparr>"
  using assms
  by (simp add: tick_def Let_def countdownFrame_def remainingAt_def countdownStart_def
        split: option.splits)

theorem tick_countdown_witness:
  "remainingAt 1016 countdownState = 248 / 125
   \<and> onGameOver (tick half 1016 countdownState) = None
   \<and> collisionTestedAt (tick half 1016 countdownState) = None
   \<and> velocity (canvas (tick half 1016 countdownState)) = 900
   \<and> onGameOver (tick half 1016 (countdownState\<lparr> countdown := None \<rparr>)) = Some (0, 11677628 / 140625)"
proof -
  have c: "countdown countdownState = Some 2"
    by (simp add: countdownState_def)
  have r: "remainingAt 1016 countdownState = 248 / 125"
    by (simp add: remainingAt_def countdownStart_def countdownState_def COUNTDOWN_DURATION_def)
  have p: "onGameOver (tick half 1016 (countdownState\<lparr> countdown := None \<rparr>))
             = Some (0, 11677628 / 140625)"
    by code_simp
  have v: "velocity countdownState = 900"
    by (simp add: countdownState_def)
  have "remainingAt 1016 countdownState > 0"
    using r by simp
  from tick_countdown [OF c this, of half] have
    "onGameOver (tick half 1016 countdownState) = None
     \<and> collisionTestedAt (tick half 1016 countdownState) = None
     \<and> velocity (canvas (tick half 1016 countdownState)) = velocity countdownState"
    unfolding Let_def by blast
  with r p v show ?thesis
    by simp
qed

section \<open>Scoring\<close>

lemma scoreUpdate_fst:
  "fst (scoreUpdate obs n) =
     map (\<lambda>ob. ob\<lparr> o_passed := o_passed ob \<or> o_x ob + o_width ob < 960 / 2 - 30 \<rparr>) obs"
  by (induction obs arbitrary: n) (simp_all add: Let_def)

lemma scoreUpdate_snd:
  "snd (scoreUpdate obs n) =
     n + int (length (filter (\<lambda>ob. \<not> o_passed ob \<and> o_x ob + o_width ob < 960 / 2 - 30) obs))"
  by (induction obs arbitrary: n) (simp_all add: Let_def)

text \<open>
  Claim C2, as the code has it.  In a frame of active play, an obstacle of the refilled
  list has its \<open>passed\<close> flag set when its trailing edge \<open>x + width\<close> is left of the
  scoring line \<open>960 / 2 - 30 = 450\<close>; a flag that is set stays set; the score grows by
  one for each obstacle whose flag goes from false to true in the frame.  The scoring
  line is not the centre of the collision circle \<open>ufoX = 960 / 2 - 80 = 400\<close>: it lies 50
  units to the right of it.
\<close>

theorem tick_scoring:
  assumes "activePlay ts s"
  shows "let dt = dtOf ts s;
             p = getCurrentParams (distance s);
             moved = map (\<lambda>ob. ob\<lparr> o_x := o_x ob - speed p * dt \<rparr>) (obstacles s);
             act = fst (refill rnd (height s) (gap p) moved (obstacleIdRef s, randomCalls s));
             scoreLine = 960 / 2 - 30;
             ufoX = 960 / 2 - 80;
             f = tick rnd ts s
         in obstacles (canvas f) =
              map (\<lambda>ob. ob\<lparr> o_passed := o_passed ob \<or> o_x ob + o_width ob < scoreLine \<rparr>) act
          \<and> score (canvas f) =
              score s + int (length (filter (\<lambda>ob. \<not> o_passed ob \<and> o_x ob + o_width ob < scoreLine) act))
          \<and> scoreLine = ufoX + (50 :: real)"
  unfolding tick_activePlay [OF assms] Let_def
  by (simp add: playFrame_def Let_def scoreUpdate_fst scoreUpdate_snd)

theorem tick_scoring_witness:
  "activePlay 10 playState
   \<and> map o_passed (obstacles (canvas (tick half 10 playState)))
       = [True, False, False, False, False, False, False]
   \<and> score (canvas (tick half 10 playState)) = score playState + 1"
proof -
  have z: "score playState = 0"
    by (simp add: playState_def)
  show ?thesis
    using tick_scoring [OF activePlay_playState, of half]
    by (simp (no_asm) add: tick_playState activePlay_playState z)
qed

text \<open>
  The claim as stated fails: in the frame of the example play state the obstacle's
  trailing edge is at 420, right of the collision circle's centre at 400, and the
  obstacle is already marked as passed and counted.
\<close>

theorem tick_scoring_counterexample:
  "activePlay 10 playState
   \<and> \<not> o_passed (obstacles playState ! 0)
   \<and> score playState = 0
   \<and> o_x (obstacles (canvas (tick half 10 playState)) ! 0)
       + o_width (obstacles (canvas (tick half 10 playState)) ! 0) = 420
   \<and> \<not> ((420 :: real) \<le> 960 / 2 - 80)
   \<and> o_passed (obstacles (canvas (tick half 10 playState)) ! 0)
   \<and> score (canvas (tick half 10 playState)) = 1"
proof -
  have "\<not> o_passed (obstacles playState ! 0)" and "score playState = 0"
    by (simp_all add: playState_def)
  then show ?thesis
    using activePlay_playState by (simp add: tick_playState)
qed

section \<open>Placement of the gap\<close>

text \<open>
  Claim C4, as the code has it.  With \<open>r\<close> the value drawn from the random source
  (\<open>0 \<le> r < 1\<close>) and \<open>usableHeight = height - 2 * 80 - gapHeight\<close>: when the usable height
  is positive, one value is drawn, the top edge of the gap, \<open>gapY - gapHeight / 2\<close>, is
  \<open>80 + r * usableHeight\<close> and lies in \<open>[80, height - 80 - gapHeight)\<close>, so that the stored
  centre \<open>gapY\<close> lies in \<open>[80 + gapHeight / 2, height - 80 - gapHeight / 2)\<close>; when it is not
  positive, no value is drawn, the top edge is at 80 and \<open>gapY = 80 + gapHeight / 2\<close>.
  Either way the identifier counter advances by one.  (The distribution of \<open>r\<close> is not
  part of the model; the position is an affine function of it.)
\<close>

theorem spawnObstacle_gap:
  assumes "0 \<le> rnd (snd refs)" and "rnd (snd refs) < 1"
  shows "let sp = spawnObstacle rnd h refs minX gapH;
             ob = fst sp;
             usableHeight = h - 2 * 80 - gapH;
             top = o_gapY ob - o_gapHeight ob / 2
         in o_gapHeight ob = gapH
          \<and> fst (snd sp) = fst refs + 1
          \<and> (if usableHeight > 0
              then top = 80 + rnd (snd refs) * usableHeight
                 \<and> 80 \<le> top \<and> top < h - 80 - gapH
                 \<and> 80 + gapH / 2 \<le> o_gapY ob \<and> o_gapY ob < h - 80 - gapH / 2
                 \<and> snd (snd sp) = snd refs + 1
              else top = 80 \<and> o_gapY ob = 80 + gapH / 2
                 \<and> snd (snd sp) = snd refs)"
proof (cases "h - 2 * 80 - gapH > 0")
  case True
  define u where "u = h - 2 * 80 - gapH"
  define r where "r = rnd (snd refs)"
  have u: "0 < u"
    using True by (simp add: u_def)
  have lo: "0 \<le> r * u"
    using assms(1) u by (simp add: r_def)
  have "r * u < 1 * u"
    using assms(2) u unfolding r_def by (intro mult_strict_right_mono)
  then have hi: "r * u < u"
    by simp
  have g: "o_gapY (fst (spawnObstacle rnd h refs minX gapH)) = 80 + r * u + gapH / 2"
    using True by (simp add: spawnObstacle_def Let_def u_def r_def)
  have gh: "o_gapHeight (fst (spawnObstacle rnd h refs minX gapH)) = gapH"
    by (simp add: spawnObstacle_def Let_def)
  have ids: "fst (snd (spawnObstacle rnd h refs minX gapH)) = fst refs + 1"
    by (simp add: spawnObstacle_def Let_def)
  have dr: "snd (snd (spawnObstacle rnd h refs minX gapH)) = snd refs + 1"
    using True by (simp add: spawnObstacle_def Let_def)
  have hu: "h - 80 - gapH = u + 80"
    by (simp add: u_def)
  show ?thesis
    unfolding Let_def g gh ids dr u_def [symmetric] r_def [symmetric]
    using u lo hi hu by simp
next
  case False
  then show ?thesis
    by (simp add: spawnObstacle_def Let_def)
qed

theorem spawnObstacle_gap_witness:
  "0 \<le> half 0 \<and> half 0 < 1
   \<and> o_gapY (fst (spawnObstacle half 440 (0, 0) 480 220)) - 220 / 2 = 110
   \<and> o_gapY (fst (spawnObstacle half 440 (0, 0) 480 220)) = 220
   \<and> o_gapHeight (fst (spawnObstacle half 440 (0, 0) 480 220)) = 220
   \<and> snd (spawnObstacle half 440 (0, 0) 480 220) = (1, 1)
   \<and> o_gapY (fst (spawnObstacle half 300 (0, 0) 480 220)) = 190
   \<and> snd (spawnObstacle half 300 (0, 0) 480 220) = (1, 0)"
proof -
  have a: "0 \<le> half (snd (0 :: nat, 0 :: nat))" and b: "half (snd (0 :: nat, 0 :: nat)) < 1"
    by (simp_all add: half_def)
  show ?thesis
    using a b spawnObstacle_gap [of half "(0, 0)" 440 480 220]
      spawnObstacle_gap [of half "(0, 0)" 300 480 220]
    by (simp add: Let_def half_def prod_eq_iff)
qed

text \<open>
  The claim as stated fails for the stored centre \<open>gapY\<close>: on the default field with a
  gap of 220 it is 220, above the claimed upper end 140; and with no usable height it
  is not at the margin 80.
\<close>

theorem spawnObstacle_gapY_counterexample:
  "(0 :: real) < 440 - 2 * 80 - 220
   \<and> \<not> (o_gapY (fst (spawnObstacle half 440 (0, 0) 480 220)) \<le> 440 - 80 - 220)
   \<and> \<not> ((300 :: real) - 2 * 80 - 220 > 0)
   \<and> o_gapY (fst (spawnObstacle half 300 (0, 0) 480 220)) \<noteq> 80"
  by (simp add: spawnObstacle_def Let_def half_def)


section \<open>The statistics at startup\<close>

lemma jsParseInt_empty: "jsParseInt [] = None"
  by (simp add: jsParseInt_def Let_def)

text \<open>
  Claim C10.  At startup the statistics have score 0, distance 0 and runs 0.  The best
  score is the integer parsed from the stored value when the value exists and parses
  to a non-zero integer, and 0 when the value is absent or does not parse to a number.
  (An empty stored string and a stored zero give 0 as well, which the last equation
  covers.)
\<close>

theorem createInitialStats_best:
  "let stored = (case window of None \<Rightarrow> None | Some ls \<Rightarrow> ls bestKey);
       st = createInitialStats window
   in stats_score st = 0 \<and> stats_distance st = 0 \<and> runs st = 0
    \<and> (\<forall>str n. stored = Some str \<and> jsParseInt str = Some n \<and> n \<noteq> 0 \<longrightarrow> bestScore st = n)
    \<and> (stored = None \<longrightarrow> bestScore st = 0)
    \<and> (\<forall>str. stored = Some str \<and> jsParseInt str = None \<longrightarrow> bestScore st = 0)
    \<and> bestScore st =
        (case stored of
           None \<Rightarrow> 0
         | Some str \<Rightarrow> (case jsParseInt str of None \<Rightarrow> 0 | Some n \<Rightarrow> n))"
  by (auto simp: createInitialStats_def Let_def jsParseInt_empty split: option.splits)

theorem createInitialStats_best_witness:
  "createInitialStats (Some (Map.empty(bestKey \<mapsto> ''7'')))
     = \<lparr> stats_score = 0, bestScore = 7, stats_distance = 0, runs = 0 \<rparr>
   \<and> bestScore (createInitialStats (Some (Map.empty(bestKey \<mapsto> ''12px'')))) = 12
   \<and> bestScore (createInitialStats (Some (Map.empty(bestKey \<mapsto> ''best'')))) = 0
   \<and> bestScore (createInitialStats (Some Map.empty)) = 0
   \<and> bestScore (createInitialStats None) = 0"
proof -
  have p: "jsParseInt ''7'' = Some 7" "jsParseInt ''12px'' = Some 12" "jsParseInt ''best'' = None"
    by (simp_all add: jsParseInt_def isWhiteSpace_def digitValue_def mathInt_def Let_def)
  show ?thesis
    using createInitialStats_best [of "Some (Map.empty(bestKey \<mapsto> ''7''))"]
      createInitialStats_best [of "Some (Map.empty(bestKey \<mapsto> ''12px''))"]
      createInitialStats_best [of "Some (Map.empty(bestKey \<mapsto> ''best''))"]
      createInitialStats_best [of "Some Map.empty"]
      createInitialStats_best [of None]
    unfolding Let_def
    by (simp add: p)
qed

section \<open>The stored best score\<close>

text \<open>
  No callback of the shell changes the storage: the only write is in \<open>updateStats\<close>,
  under a condition that needs a patch with a best score, and no caller passes one.
\<close>

lemma updateStats_storage:
  "patch_bestScore patch = None \<Longrightarrow> storage (updateStats patch w) = storage w"
  by (simp add: updateStats_def Let_def split: option.splits)

lemma shellStep_storage: "storage (shellStep w ev) = storage w"
  by (cases ev)
     (simp_all add: handleStart_def handleRestart_def handlePauseToggle_def handleGameOver_def
        updateStats_storage Let_def)

lemma session_storage: "storage (session w evs) = storage w"
  unfolding session_def
  by (induction evs arbitrary: w) (simp_all add: shellStep_storage)

text \<open>
  Claim C1 at a concrete session.  The storage holds the best score 5; the shell
  mounts, a run is started and ends with score 7.  The statistics in memory then show
  the best score 7, but the storage still holds 5, and a shell mounted from that
  storage starts with the best score 5 again: the new best score was not stored.
\<close>

theorem handleGameOver_best_not_stored:
  "bestScore (stats (mountShell (Some (Map.empty(bestKey \<mapsto> ''5''))))) = 5
   \<and> bestScore (stats (session (mountShell (Some (Map.empty(bestKey \<mapsto> ''5''))))
                          [Start, GameOver 7 1234])) = 7
   \<and> storage (session (mountShell (Some (Map.empty(bestKey \<mapsto> ''5''))))
                 [Start, GameOver 7 1234]) = Some (Map.empty(bestKey \<mapsto> ''5''))
   \<and> bestScore (stats (mountShell (storage (session (mountShell (Some (Map.empty(bestKey \<mapsto> ''5''))))
                                                [Start, GameOver 7 1234])))) = 5"
proof -
  have p: "jsParseInt ''5'' = Some 5"
    by (simp add: jsParseInt_def isWhiteSpace_def digitValue_def mathInt_def Let_def)
  have b: "bestScore (createInitialStats (Some (Map.empty(bestKey \<mapsto> ''5'')))) = 5"
    by (simp add: createInitialStats_def Let_def p)
  have s: "storage (session (mountShell (Some (Map.empty(bestKey \<mapsto> ''5''))))
                 [Start, GameOver 7 1234]) = Some (Map.empty(bestKey \<mapsto> ''5''))"
    by (simp add: session_storage mountShell_def)
  have n: "bestScore (stats (session (mountShell (Some (Map.empty(bestKey \<mapsto> ''5''))))
                          [Start, GameOver 7 1234])) = 7"
    by (simp add: session_def mountShell_def handleStart_def handleGameOver_def updateStats_def
          Let_def b)
  show ?thesis
    unfolding s using b n by (simp add: mountShell_def)
qed


section \<open>Obstacle widths in a running game\<close>

text \<open>
  The hypothesis of the refill theorem holds throughout a game: the obstacle list is
  empty when the component mounts, \<open>resetGame\<close> builds it from spawned obstacles, and
  every frame keeps the widths.
\<close>

lemma standardWidths_iff:
  "standardWidths obs = (\<forall>ob\<in>set obs. o_width ob = OBSTACLE_WIDTH)"
  by (simp add: standardWidths_def list_all_iff)

lemma spawnObstacle_width:
  "o_width (fst (spawnObstacle rnd h r x g)) = OBSTACLE_WIDTH"
  by (simp add: spawnObstacle_def Let_def)

lemma refill_widths:
  assumes "standardWidths upd"
  shows "standardWidths (fst (refill rnd h g upd refs))"
proof -
  have k: "\<forall>ob\<in>set (filter (\<lambda>ob. o_x ob + o_width ob > - 60) upd). o_width ob = OBSTACLE_WIDTH"
    using assms by (simp add: standardWidths_iff)
  have sp: "\<forall>act r. (\<forall>ob\<in>set act. o_width ob = OBSTACLE_WIDTH) \<longrightarrow>
       o_width (fst (spawnObstacle rnd h r (nextSpawnX act) g)) = OBSTACLE_WIDTH"
    by (intro allI impI spawnObstacle_width)
  have "\<forall>ob\<in>set (fst (pipelineLoop rnd h g needed
                 (filter (\<lambda>ob. o_x ob + o_width ob > - 60) upd) refs)). o_width ob = OBSTACLE_WIDTH"
    using k sp by (rule pipelineLoop_invariant [where I = "\<lambda>ob. o_width ob = OBSTACLE_WIDTH"])
  then show ?thesis
    unfolding refill_def standardWidths_iff .
qed

lemma moved_widths:
  "standardWidths obs \<Longrightarrow> standardWidths (map (\<lambda>ob. ob\<lparr> o_x := o_x ob - d \<rparr>) obs)"
  by (simp add: standardWidths_iff)

lemma playFrame_widths:
  assumes "standardWidths (obstacles s)"
  shows "standardWidths (obstacles (canvas (playFrame rnd delta s)))"
proof -
  let ?p = "getCurrentParams (distance s)"
  let ?act = "fst (refill rnd (height s) (gap ?p)
                 (map (\<lambda>ob. ob\<lparr> o_x := o_x ob - speed ?p * delta \<rparr>) (obstacles s))
                 (obstacleIdRef s, randomCalls s))"
  have "standardWidths ?act"
    using assms by (intro refill_widths moved_widths)
  then have "standardWidths (fst (scoreUpdate ?act (score s)))"
    by (simp add: scoreUpdate_fst standardWidths_iff)
  then show ?thesis
    by (simp add: playFrame_def Let_def)
qed

lemma countdownFrame_widths:
  assumes "standardWidths (obstacles s)"
  shows "standardWidths (obstacles (canvas (countdownFrame rnd delta remaining s)))"
proof -
  have "standardWidths (fst (refill rnd (height s) (gap (getCurrentParams 0))
                 (map (\<lambda>ob. ob\<lparr> o_x := o_x ob - 80 * delta \<rparr>) (obstacles s))
                 (obstacleIdRef s, randomCalls s)))"
    using assms by (intro refill_widths moved_widths)
  then show ?thesis
    by (simp add: countdownFrame_def Let_def)
qed

lemma tick_widths:
  assumes "standardWidths (obstacles s)"
  shows "standardWidths (obstacles (canvas (tick rnd ts s)))"
proof (cases "lastTimeRef s")
  case None
  then show ?thesis
    using assms by (simp add: tick_def)
next
  case (Some lastTime)
  show ?thesis
  proof (cases "(ts - lastTime) / 1000 \<le> 0")
    case True
    then show ?thesis
      using assms Some by (simp add: tick_def)
  next
    case False
    show ?thesis
    proof (cases "countdown s")
      case None
      have "tick rnd ts s = playFrame rnd (frameDelta ts lastTime) (s\<lparr> lastTimeRef := Some ts \<rparr>)"
        using Some False None by (simp add: tick_def Let_def)
      then show ?thesis
        using assms by (simp add: playFrame_widths)
    next
      case (Some c)
      let ?s2 = "s\<lparr> lastTimeRef := Some ts, countdownStartRef := Some (countdownStart ts s) \<rparr>"
      have "tick rnd ts s =
              (if remainingAt ts s \<le> 0 then playFrame rnd (frameDelta ts lastTime) ?s2
               else countdownFrame rnd (frameDelta ts lastTime) (remainingAt ts s) ?s2)"
        using \<open>lastTimeRef s = Some lastTime\<close> False Some by (simp add: tick_def Let_def)
      then show ?thesis
        using assms by (simp add: playFrame_widths countdownFrame_widths)
    qed
  qed
qed

lemma fold_invariant:
  "P acc \<Longrightarrow> \<forall>i a. P a \<longrightarrow> P (f i a) \<Longrightarrow> P (fold f xs acc)"
  by (induction xs arbitrary: acc) simp_all

lemma resetGame_widths: "standardWidths (obstacles (resetGame rnd s))"
proof -
  let ?step = "\<lambda>i acc.
                 let sp = spawnObstacle rnd (height s) (snd acc)
                            (480 + real i * OBSTACLE_SPACING) (gap (getCurrentParams 0))
                 in (fst acc @ [fst sp], snd sp)"
  let ?init = "(([] :: Obstacle list), (obstacleIdRef s, randomCalls s))"
  have "standardWidths (fst ?init)"
    by (simp add: standardWidths_def)
  moreover have "\<forall>i a. standardWidths (fst a) \<longrightarrow> standardWidths (fst (?step i a))"
    by (simp add: Let_def standardWidths_iff spawnObstacle_width)
  ultimately have
    "standardWidths (fst (fold ?step [0 ..< nat \<lceil>960 / OBSTACLE_SPACING\<rceil> + 2] ?init))"
    by (rule fold_invariant [where P = "\<lambda>a. standardWidths (fst a)"])
  then show ?thesis
    unfolding resetGame_def Let_def by simp
qed


end
